theory Spec2Isabelle
  imports Complex_Main
begin

section \<open>JavaScript values used by the quiz\<close>

text \<open>
  A JavaScript string is a sequence of UTF-16 code units; \<open>charCodeAt\<close> reads one unit.
  Strings are therefore lists of code units, and \<open>ascii\<close> embeds an ASCII literal.
  The two non-ASCII characters of the source tables are the bullet of the separators
  (U+2022, code unit 8226) and the u-acute of one origin name (U+00FA, code unit 250).
\<close>

type_synonym jsstring = "nat list"

definition ascii :: "string \<Rightarrow> jsstring" where
  "ascii s = map of_char s"

text \<open>
  An answer value is a number (the slider stores the result of \<open>parseInt\<close>, an integer), a
  string (a radio token, or the sentinel \<open>'skipped'\<close>) or an array of strings (multi-select).
  A slot that is absent reads as \<open>undefined\<close>: \<open>None\<close> of the lookup.
  Numbers are integers: IEEE rounding of fractional numbers is outside the model.
\<close>

datatype answer = Num int | Str jsstring | Arr "jsstring list"

text \<open>An answers object has array-index keys, which JavaScript enumerates in ascending order.\<close>

type_synonym answer_set = "(nat \<times> answer) list"

definition skipped :: jsstring where
  "skipped = ascii ''skipped''"

definition bullet_sep :: jsstring where
  "bullet_sep = [32, 8226, 32]"

text \<open>\<open>Boolean(v)\<close>: zero and the empty string are falsy, every array is truthy.\<close>

fun truthy :: "answer \<Rightarrow> bool" where
  "truthy (Num n) = (n \<noteq> 0)"
| "truthy (Str s) = (s \<noteq> [])"
| "truthy (Arr xs) = True"

text \<open>\<open>a || d\<close> where \<open>a\<close> is a slot read.\<close>

fun or_default :: "answer option \<Rightarrow> answer \<Rightarrow> answer" where
  "or_default None d = d"
| "or_default (Some v) d = (if truthy v then v else d)"

text \<open>\<open>Array.prototype.join\<close> on strings.\<close>

fun join :: "jsstring \<Rightarrow> jsstring list \<Rightarrow> jsstring" where
  "join sep [] = []"
| "join sep [x] = x"
| "join sep (x # y # ys) = x @ sep @ join sep (y # ys)"

text \<open>\<open>join\<close> on an array that may hold \<open>undefined\<close>, which it renders as the empty string.\<close>

definition join_undef :: "jsstring \<Rightarrow> jsstring option list \<Rightarrow> jsstring" where
  "join_undef sep xs = join sep (map (\<lambda>x. case x of None \<Rightarrow> [] | Some s \<Rightarrow> s) xs)"

text \<open>
  \<open>Number.prototype.toString\<close> on an integer: decimal digits, with a minus sign (the
  notation JavaScript prints below \<open>10^21\<close>).
\<close>

fun digits :: "nat \<Rightarrow> jsstring" where
  "digits n = (if n < 10 then [48 + n] else digits (n div 10) @ [48 + n mod 10])"

declare digits.simps [simp del]

definition number_to_string :: "int \<Rightarrow> jsstring" where
  "number_to_string n = (if n < 0 then 45 # digits (nat (- n)) else digits (nat n))"

fun ToString :: "answer \<Rightarrow> jsstring" where
  "ToString (Num n) = number_to_string n"
| "ToString (Str s) = s"
| "ToString (Arr xs) = join [44] xs"

text \<open>
  \<open>ToNumber\<close> of a string, with \<open>None\<close> for \<open>NaN\<close>: white space is trimmed, the empty string
  is 0, an optionally signed run of decimal digits is its value, and everything else is
  \<open>NaN\<close>. Numeric strings with a fraction, an exponent, a radix prefix or \<open>Infinity\<close> are
  outside the model (no quiz option is such a string).
\<close>

definition is_white_space :: "nat \<Rightarrow> bool" where
  "is_white_space c \<longleftrightarrow>
     c \<in> set [9, 10, 11, 12, 13, 32, 160, 5760, 8232, 8233, 8239, 8287, 12288, 65279]
     \<or> (8192 \<le> c \<and> c \<le> 8202)"

definition trim :: "jsstring \<Rightarrow> jsstring" where
  "trim s = rev (dropWhile is_white_space (rev (dropWhile is_white_space s)))"

fun digits_value :: "jsstring \<Rightarrow> nat \<Rightarrow> nat option" where
  "digits_value [] acc = Some acc"
| "digits_value (c # cs) acc =
     (if 48 \<le> c \<and> c \<le> 57 then digits_value cs (10 * acc + (c - 48)) else None)"

definition StringToNumber :: "jsstring \<Rightarrow> int option" where
  "StringToNumber s =
     (case trim s of
        [] \<Rightarrow> Some 0
      | c # cs \<Rightarrow>
          if c = 45 \<or> c = 43 then
            (if cs = [] then None
             else map_option (\<lambda>n. if c = 45 then - int n else int n) (digits_value cs 0))
          else map_option int (digits_value (c # cs) 0))"

fun ToNumber :: "answer \<Rightarrow> int option" where
  "ToNumber (Num n) = Some n"
| "ToNumber (Str s) = StringToNumber s"
| "ToNumber (Arr xs) = StringToNumber (join [44] xs)"

text \<open>\<open>arr[i]\<close>: \<open>undefined\<close> when the index is \<open>NaN\<close> or out of range.\<close>

definition js_index :: "'a list \<Rightarrow> int option \<Rightarrow> 'a option" where
  "js_index xs i =
     (case i of
        None \<Rightarrow> None
      | Some n \<Rightarrow> if 0 \<le> n \<and> n < int (length xs) then Some (xs ! nat n) else None)"

text \<open>
  \<open>table[key] || fallback\<close> on an object literal whose values are non-empty strings.
  The key is the property name \<open>ToString key\<close>. Keys naming a property that every object
  inherits (\<open>constructor\<close>, \<open>toString\<close>, ...) are outside the model.
\<close>

definition lookup_or :: "(jsstring \<times> jsstring) list \<Rightarrow> answer \<Rightarrow> jsstring \<Rightarrow> jsstring" where
  "lookup_or table key fallback =
     (case map_of table (ToString key) of None \<Rightarrow> fallback | Some v \<Rightarrow> v)"

text \<open>\<open>answers[k]\<close> and \<open>Object.values(answers)\<close>.\<close>

definition slot :: "answer_set \<Rightarrow> nat \<Rightarrow> answer option" where
  "slot a k = map_of a k"

definition Object_values :: "answer_set \<Rightarrow> answer list" where
  "Object_values a = map snd a"

definition Object_keys :: "answer_set \<Rightarrow> nat list" where
  "Object_keys a = map fst a"


section \<open>The result derivation of \<open>utils/quizLogic.js\<close>\<close>

definition BLEND_NAMES :: "jsstring list" where
  "BLEND_NAMES = map ascii
     [''Nocturne 03'', ''Aurora Blend'', ''Meridian'', ''Solstice'', ''Compass Rose'',
      ''Twilight'', ''Zenith'', ''Harmony'', ''Cascade'', ''Ember'', ''Mosaic'', ''Prism'',
      ''Velvet Storm'', ''Golden Hour'', ''Obsidian'', ''Copper Peak'', ''Silver Moon'',
      ''Starlight'', ''Thunder Ridge'', ''Crimson Dawn'', ''Mystic Valley'', ''Iron Mountain'']"

record origin =
  origin_name :: jsstring
  origin_profile :: "jsstring list"
  origin_body :: jsstring

definition mk_origin :: "jsstring \<Rightarrow> string list \<Rightarrow> string \<Rightarrow> origin" where
  "mk_origin n p b = \<lparr>origin_name = n, origin_profile = map ascii p, origin_body = ascii b\<rparr>"

definition ORIGINS :: "origin list" where
  "ORIGINS =
     [mk_origin (ascii ''Ethiopian Yirgacheffe'') [''floral'', ''citrus''] ''light'',
      mk_origin (ascii ''Colombian Huila'') [''chocolate'', ''caramel''] ''medium'',
      mk_origin (ascii ''Guatemalan Antigua'') [''spicy'', ''chocolate''] ''full'',
      mk_origin (ascii ''Brazilian Santos'') [''nutty'', ''chocolate''] ''medium'',
      mk_origin (ascii ''Costa Rican Tarraz'' @ [250]) [''citrus'', ''berry''] ''medium'',
      mk_origin (ascii ''Jamaican Blue Mountain'') [''floral'', ''nutty''] ''light'',
      mk_origin (ascii ''Hawaiian Kona'') [''nutty'', ''caramel''] ''medium'',
      mk_origin (ascii ''Kenyan AA'') [''berry'', ''citrus''] ''full'',
      mk_origin (ascii ''Peruvian Organic'') [''chocolate'', ''nutty''] ''medium'',
      mk_origin (ascii ''Panamanian Geisha'') [''floral'', ''berry''] ''light'']"

record flavor_profile =
  profile_notes :: "jsstring list"
  profile_intensity :: jsstring
  profile_roastPreference :: jsstring

definition mk_profile :: "string list \<Rightarrow> string \<Rightarrow> string \<Rightarrow> flavor_profile" where
  "mk_profile ns i r =
     \<lparr>profile_notes = map ascii ns, profile_intensity = ascii i,
      profile_roastPreference = ascii r\<rparr>"

definition FLAVOR_PROFILES :: "(jsstring \<times> flavor_profile) list" where
  "FLAVOR_PROFILES =
     [(ascii ''chocolate'',
         mk_profile [''Dark chocolate'', ''Milk chocolate'', ''Cocoa'', ''Mocha'']
           ''rich'' ''medium-dark''),
      (ascii ''caramel'',
         mk_profile [''Caramel sweetness'', ''Butterscotch'', ''Toffee'', ''Brown sugar'']
           ''sweet'' ''medium''),
      (ascii ''citrus'',
         mk_profile [''Bright citrus'', ''Lemon zest'', ''Orange'', ''Grapefruit'']
           ''bright'' ''light-medium''),
      (ascii ''berry'',
         mk_profile [''Berry notes'', ''Blueberry'', ''Blackcurrant'', ''Cherry'']
           ''fruity'' ''light''),
      (ascii ''nutty'',
         mk_profile [''Toasted hazelnut'', ''Almond'', ''Walnut'', ''Pecan'']
           ''warm'' ''medium''),
      (ascii ''floral'',
         mk_profile [''Floral hints'', ''Jasmine'', ''Lavender'', ''Rose'']
           ''delicate'' ''light''),
      (ascii ''spicy'',
         mk_profile [''Warm spice'', ''Cinnamon'', ''Clove'', ''Cardamom'']
           ''complex'' ''dark'')]"

text \<open>
  The result object has the fields of the source; its \<open>notes\<close> field is \<open>tastingNotes\<close>
  here, because \<open>notes\<close> is a reserved word of the theory language. \<open>name\<close> is read
  from an array by index, so it may be \<open>undefined\<close> (\<open>None\<close>).
\<close>

record blend_result =
  name :: "jsstring option"
  tastingNotes :: jsstring
  origins :: jsstring
  roastLevel :: jsstring
  grindSuggestion :: jsstring
  caffeineLevel :: jsstring
  description :: jsstring

text \<open>
  \<open>generateBlendName\<close>: the values in key order, the falsy ones dropped, joined without
  separator, split into code units and summed.
\<close>

definition name_seed :: "answer_set \<Rightarrow> nat" where
  "name_seed a =
     foldl (\<lambda>acc char. acc + char) 0
       (join [] (map ToString (filter truthy (Object_values a))))"

definition generateBlendName :: "answer_set \<Rightarrow> jsstring option" where
  "generateBlendName a =
     js_index BLEND_NAMES (Some (int (name_seed a mod length BLEND_NAMES)))"

definition finishNotes :: "jsstring list" where
  "finishNotes = map ascii
     [''Smooth finish'', ''Clean finish'', ''Bold finish'', ''Lingering finish'']"

text \<open>
  \<open>Math.min(Math.floor((bitterness - 1) / 1.25), finishNotes.length - 1)\<close>; the
  subtraction converts \<open>bitterness\<close> to a number, and \<open>NaN\<close> stays \<open>NaN\<close>.
\<close>

definition finishIndex :: "answer \<Rightarrow> int option" where
  "finishIndex bitterness =
     map_option (\<lambda>n. min \<lfloor>real_of_int (n - 1) / 1.25\<rfloor> (int (length finishNotes) - 1))
       (ToNumber bitterness)"

definition flavor_note :: "answer \<Rightarrow> answer \<Rightarrow> jsstring option" where
  "flavor_note roastPreference flavor =
     (case map_of FLAVOR_PROFILES (ToString flavor) of
        None \<Rightarrow> Some (ascii ''Complex notes'')
      | Some profile \<Rightarrow>
          (let noteIndex =
                 (if roastPreference = Str (ascii ''light'') then 0
                  else if roastPreference = Str (ascii ''dark'')
                    then int (length (profile_notes profile)) - 1
                  else int (length (profile_notes profile)) div 2)
           in case js_index (profile_notes profile) (Some noteIndex) of
                Some n \<Rightarrow> if n \<noteq> [] then Some n else js_index (profile_notes profile) (Some 0)
              | None \<Rightarrow> js_index (profile_notes profile) (Some 0)))"

definition generateTastingNotes :: "answer list \<Rightarrow> answer \<Rightarrow> answer \<Rightarrow> jsstring" where
  "generateTastingNotes flavors roastPreference bitterness =
     (let kept = take 3 (filter (\<lambda>f. truthy f \<and> f \<noteq> Str skipped) flavors);
          selectedFlavors = (if length kept = 0 then kept @ [Str (ascii ''chocolate'')] else kept);
          notes = map (flavor_note roastPreference) selectedFlavors
      in join_undef bullet_sep (notes @ [js_index finishNotes (finishIndex bitterness)]))"

definition generateOriginBlend :: "answer list \<Rightarrow> answer \<Rightarrow> jsstring" where
  "generateOriginBlend flavors roastPreference =
     (let matchingOrigins =
            filter (\<lambda>origin. list_ex (\<lambda>flavor. flavor \<in> set (map Str (origin_profile origin))) flavors)
              ORIGINS;
          availableOrigins = (if length matchingOrigins > 0 then matchingOrigins else ORIGINS);
          primary = (case js_index availableOrigins (Some 0) of
                       Some p \<Rightarrow> p | None \<Rightarrow> ORIGINS ! 0);
          secondary = (case js_index availableOrigins (Some 1) of
                         Some p \<Rightarrow> p | None \<Rightarrow> ORIGINS ! 1);
          primaryPercent =
            (if roastPreference = Str (ascii ''light'') then 70
             else if roastPreference = Str (ascii ''dark'') then 55 else 60);
          secondaryPercent = 100 - primaryPercent
      in origin_name primary @ ascii '' '' @ number_to_string primaryPercent @ [37]
           @ bullet_sep
           @ origin_name secondary @ ascii '' '' @ number_to_string secondaryPercent @ [37])"

definition mapRoastLevel :: "answer \<Rightarrow> jsstring" where
  "mapRoastLevel roastPreference =
     lookup_or
       [(ascii ''light'', ascii ''Light Roast''),
        (ascii ''medium'', ascii ''Medium Roast''),
        (ascii ''dark'', ascii ''Dark Roast'')]
       roastPreference (ascii ''Medium Roast'')"

definition mapGrindSuggestion :: "answer \<Rightarrow> jsstring" where
  "mapGrindSuggestion brewMethod =
     lookup_or
       [(ascii ''espresso'', ascii ''Fine''),
        (ascii ''pour-over'', ascii ''Medium-fine''),
        (ascii ''drip'', ascii ''Medium''),
        (ascii ''french-press'', ascii ''Coarse''),
        (ascii ''pod'', ascii ''Pre-ground''),
        (ascii ''not-sure'', ascii ''Medium'')]
       brewMethod (ascii ''Medium'')"

definition mapCaffeineLevel :: "answer \<Rightarrow> jsstring" where
  "mapCaffeineLevel caffeine =
     lookup_or
       [(ascii ''full'', ascii ''Full Caffeine''),
        (ascii ''half-caf'', ascii ''Half Caffeine''),
        (ascii ''low-decaf'', ascii ''Low/Decaf'')]
       caffeine (ascii ''Full Caffeine'')"

definition generateDescription :: "answer \<Rightarrow> answer \<Rightarrow> answer list \<Rightarrow> jsstring" where
  "generateDescription drinkStyle roastPreference flavors =
     (let styleDesc =
            lookup_or
              [(ascii ''black'', ascii ''pure coffee experience''),
               (ascii ''little-milk'', ascii ''lightly enhanced coffee''),
               (ascii ''milk-sugar'', ascii ''balanced sweetened coffee''),
               (ascii ''sweet-creamy'', ascii ''rich, indulgent coffee experience''),
               (ascii ''not-sure'', ascii ''versatile coffee experience'')]
              drinkStyle (ascii ''perfect coffee experience'');
          roastDesc =
            lookup_or
              [(ascii ''light'', ascii ''bright and nuanced''),
               (ascii ''medium'', ascii ''well-balanced''),
               (ascii ''dark'', ascii ''bold and robust'')]
              roastPreference (ascii ''expertly crafted'')
      in ascii ''A carefully crafted blend that matches your taste preferences for ''
           @ styleDesc @ ascii '' with '' @ roastDesc
           @ ascii '' character. This blend celebrates the unique flavors you love while maintaining perfect balance in every cup.'')"

definition generateBlendResult :: "answer_set \<Rightarrow> blend_result" where
  "generateBlendResult a =
     (let drinkStyle = or_default (slot a 1) (Str (ascii ''black''));
          roastPreference = or_default (slot a 2) (Str (ascii ''medium''));
          flavors = (case slot a 3 of
                       Some (Arr xs) \<Rightarrow> map Str xs
                     | v \<Rightarrow> [or_default v (Str (ascii ''chocolate''))]);
          bitterness = or_default (slot a 4) (Num 3);
          brewMethod = or_default (slot a 5) (Str (ascii ''drip''));
          caffeine = or_default (slot a 6) (Str (ascii ''full''))
      in \<lparr>name = generateBlendName a,
          tastingNotes = generateTastingNotes flavors roastPreference bitterness,
          origins = generateOriginBlend flavors roastPreference,
          roastLevel = mapRoastLevel roastPreference,
          grindSuggestion = mapGrindSuggestion brewMethod,
          caffeineLevel = mapCaffeineLevel caffeine,
          description = generateDescription drinkStyle roastPreference flavors\<rparr>)"


section \<open>The result derivation of the quiz context\<close>

text \<open>
  The quiz context has a \<open>generateBlendResult\<close> of its own, the one its \<open>nextQuestion\<close>
  action calls; it is named \<open>generateBlendResult_ctx\<close> here. It calls \<open>Math.random()\<close>
  three times (primary origin, secondary origin, finish); the three values drawn, each in
  \<open>[0, 1)\<close>, are an explicit argument, in the order of the calls.
\<close>

type_synonym draws = "real \<times> real \<times> real"

definition blendNames :: "jsstring list" where
  "blendNames = map ascii
     [''Nocturne 03'', ''Aurora Blend'', ''Meridian'', ''Solstice'', ''Compass Rose'',
      ''Twilight'', ''Zenith'', ''Harmony'', ''Cascade'', ''Ember'', ''Mosaic'', ''Prism'']"

definition origin_names :: "jsstring list" where
  "origin_names =
     [ascii ''Ethiopian Yirgacheffe'', ascii ''Colombian Huila'', ascii ''Guatemalan Antigua'',
      ascii ''Brazilian Santos'', ascii ''Costa Rican Tarraz'' @ [250],
      ascii ''Jamaican Blue Mountain'', ascii ''Hawaiian Kona'', ascii ''Kenyan AA'',
      ascii ''Peruvian Organic'', ascii ''Panamanian Geisha'']"

definition finishes :: "jsstring list" where
  "finishes = map ascii [''Smooth finish'', ''Caramel finish'', ''Clean finish'', ''Bold finish'']"

text \<open>\<open>v.length\<close>: the length of a string or an array, \<open>undefined\<close> (\<open>None\<close>) on a number.\<close>

fun js_length :: "answer \<Rightarrow> int option" where
  "js_length (Num n) = None"
| "js_length (Str s) = Some (int (length s))"
| "js_length (Arr xs) = Some (int (length xs))"

text \<open>\<open>x + y\<close> on two lengths: a number, or \<open>NaN\<close> (\<open>None\<close>) when one is \<open>undefined\<close>.\<close>

fun add_lengths :: "int option \<Rightarrow> int option \<Rightarrow> int option" where
  "add_lengths (Some x) (Some y) = Some (x + y)"
| "add_lengths _ _ = None"

text \<open>
  \<open>n + v\<close> for a number \<open>n\<close> and an answer \<open>v\<close>: numeric addition when \<open>v\<close> is a number,
  string concatenation otherwise (\<open>Inr\<close>); \<open>NaN\<close> prints as \<open>NaN\<close>.
\<close>

definition number_or_NaN_to_string :: "int option \<Rightarrow> jsstring" where
  "number_or_NaN_to_string n = (case n of None \<Rightarrow> ascii ''NaN'' | Some k \<Rightarrow> number_to_string k)"

fun js_plus :: "int option \<Rightarrow> answer \<Rightarrow> int option + jsstring" where
  "js_plus n (Num k) = Inl (map_option (\<lambda>m. m + k) n)"
| "js_plus n v = Inr (number_or_NaN_to_string n @ ToString v)"

text \<open>\<open>x % m\<close>: the operand is converted to a number; the remainder has the dividend's sign.\<close>

definition js_rem :: "int option + jsstring \<Rightarrow> int \<Rightarrow> int option" where
  "js_rem x m =
     (case (case x of Inl n \<Rightarrow> n | Inr s \<Rightarrow> StringToNumber s) of
        None \<Rightarrow> None
      | Some n \<Rightarrow> if m = 0 then None else Some (sgn n * (\<bar>n\<bar> mod \<bar>m\<bar>)))"

text \<open>\<open>xs[Math.floor(r * xs.length)]\<close> for a drawn \<open>r\<close>.\<close>

definition random_element :: "real \<Rightarrow> 'a list \<Rightarrow> 'a option" where
  "random_element r xs = js_index xs (Some \<lfloor>r * real (length xs)\<rfloor>)"

text \<open>A template placeholder prints \<open>undefined\<close> for a missing element.\<close>

definition template_string :: "jsstring option \<Rightarrow> jsstring" where
  "template_string x = (case x of None \<Rightarrow> ascii ''undefined'' | Some s \<Rightarrow> s)"

definition generateBlendResult_ctx :: "answer_set \<Rightarrow> draws \<Rightarrow> blend_result" where
  "generateBlendResult_ctx a rnd =
     (let flavorProfile = or_default (slot a 1) (Str (ascii ''smooth-nutty''));
          roastPreference = or_default (slot a 2) (Str (ascii ''medium''));
          flavors = or_default (slot a 3) (Arr [ascii ''chocolate'']);
          bitterness = or_default (slot a 4) (Num 3);
          brewMethod = or_default (slot a 5) (Str (ascii ''drip''));
          caffeine = or_default (slot a 6) (Str (ascii ''full''));
          nameIndex =
            js_rem (js_plus (add_lengths (js_length flavorProfile) (js_length roastPreference))
                      bitterness)
              (int (length blendNames));
          selectedFlavors = (case flavors of Arr xs \<Rightarrow> map Str xs | v \<Rightarrow> [v]);
          flavor_notes =
            join bullet_sep
              (map (\<lambda>flavor.
                      lookup_or
                        [(ascii ''chocolate'', ascii ''Dark chocolate''),
                         (ascii ''caramel'', ascii ''Caramel sweetness''),
                         (ascii ''citrus'', ascii ''Bright citrus''),
                         (ascii ''berry'', ascii ''Berry notes''),
                         (ascii ''nutty'', ascii ''Toasted hazelnut''),
                         (ascii ''floral'', ascii ''Floral hints''),
                         (ascii ''spicy'', ascii ''Warm spice'')]
                        flavor (ascii ''Complex notes''))
                 (take 3 selectedFlavors));
          primaryOrigin = random_element (fst rnd) origin_names;
          secondaryOrigin = random_element (fst (snd rnd)) origin_names;
          originBreakdown =
            template_string primaryOrigin @ ascii '' 60%'' @ bullet_sep
              @ template_string secondaryOrigin @ ascii '' 40%'';
          grindSuggestion' =
            lookup_or
              [(ascii ''espresso'', ascii ''Fine''),
               (ascii ''pour-over'', ascii ''Medium-fine''),
               (ascii ''drip'', ascii ''Medium''),
               (ascii ''french-press'', ascii ''Coarse''),
               (ascii ''pod'', ascii ''Pre-ground''),
               (ascii ''not-sure'', ascii ''Medium'')]
              brewMethod (ascii ''Medium'');
          roastLevel' =
            lookup_or
              [(ascii ''light'', ascii ''Light Roast''),
               (ascii ''medium'', ascii ''Medium Roast''),
               (ascii ''dark'', ascii ''Dark Roast'')]
              roastPreference (ascii ''Medium Roast'');
          finish = random_element (snd (snd rnd)) finishes;
          profileDesc =
            lookup_or
              [(ascii ''bright-fruity'', ascii ''bright, fruit-forward coffee with vibrant acidity''),
               (ascii ''rich-chocolatey'', ascii ''rich, chocolatey coffee with bold, deep flavors''),
               (ascii ''smooth-nutty'', ascii ''smooth, well-balanced coffee with nutty sweetness'')]
              flavorProfile (ascii ''perfectly balanced coffee'')
      in \<lparr>name = js_index blendNames nameIndex,
          tastingNotes = flavor_notes @ bullet_sep @ template_string finish,
          origins = originBreakdown,
          roastLevel = roastLevel',
          grindSuggestion = grindSuggestion',
          caffeineLevel =
            (if caffeine = Str (ascii ''full'') then ascii ''Full Caffeine''
             else if caffeine = Str (ascii ''half-caf'') then ascii ''Half Caffeine''
             else ascii ''Low/Decaf''),
          description =
            ascii ''A carefully crafted blend that delivers '' @ profileDesc @ ascii '' with ''
              @ ToString roastPreference
              @ ascii '' roast character. This blend celebrates your unique taste preferences while maintaining perfect balance in every cup.''\<rparr>)"


section \<open>The quiz state machine\<close>

text \<open>
  \<open>QUESTION n\<close> is the string \<open>question_n\<close> that the reducer builds from the question number.
\<close>

datatype QUIZ_STATES = IDLE | QUESTION int | RESULT

record quiz_state =
  currentState :: QUIZ_STATES
  currentQuestion :: int
  answers :: answer_set
  progress :: real
  result :: "blend_result option"
  startTime :: "int option"
  completionTime :: "int option"

definition initialState :: quiz_state where
  "initialState =
     \<lparr>currentState = IDLE, currentQuestion = 1, answers = [], progress = 0,
      result = None, startTime = None, completionTime = None\<rparr>"

datatype action =
    START_QUIZ "answer option"
  | ANSWER_QUESTION nat answer
  | NEXT_QUESTION
  | PREVIOUS_QUESTION
  | GENERATE_RESULT blend_result
  | RESET_QUIZ
  | SKIP_QUESTION nat

text \<open>
  \<open>{ ...answers, [questionId]: value }\<close>: the key keeps its place when it is present, and a
  new key takes its place in ascending order.
\<close>

fun set_slot :: "nat \<Rightarrow> answer \<Rightarrow> answer_set \<Rightarrow> answer_set" where
  "set_slot k v [] = [(k, v)]"
| "set_slot k v ((k', v') # rest) =
     (if k = k' then (k, v) # rest
      else if k < k' then (k, v) # (k', v') # rest
      else (k', v') # set_slot k v rest)"

text \<open>\<open>firstAnswer ? ... : ...\<close>: the first answer when it is supplied and truthy.\<close>

definition given :: "answer option \<Rightarrow> answer option" where
  "given firstAnswer =
     (case firstAnswer of None \<Rightarrow> None | Some v \<Rightarrow> if truthy v then Some v else None)"

text \<open>
  The reducer. Its first argument is what \<open>Date.now()\<close> returns during the call (read by
  the cases that record a time). Progress is a real number: the rounding of the
  floating-point division is outside the model.
\<close>

fun quizReducer :: "int \<Rightarrow> quiz_state \<Rightarrow> action \<Rightarrow> quiz_state" where
  "quizReducer now state (START_QUIZ firstAnswer) =
     state\<lparr>currentState := QUESTION 1,
            currentQuestion := 1,
            startTime := Some now,
            answers := (case given firstAnswer of Some v \<Rightarrow> [(1, v)] | None \<Rightarrow> []),
            progress :=
              (case given firstAnswer of Some v \<Rightarrow> (1 / 6) * 100 | None \<Rightarrow> (0 / 6) * 100)\<rparr>"
| "quizReducer now state (ANSWER_QUESTION questionId answer) =
     (let newAnswers = set_slot questionId answer (answers state);
          progress' = (real (length (Object_keys newAnswers)) / 6) * 100
      in state\<lparr>answers := newAnswers, progress := progress'\<rparr>)"
| "quizReducer now state NEXT_QUESTION =
     (let nextQuestion = currentQuestion state + 1
      in if nextQuestion > 6 then
           state\<lparr>currentState := RESULT, completionTime := Some now, progress := 100\<rparr>
         else
           (let answeredCount = length (Object_keys (answers state));
                questionProgress = (real_of_int (nextQuestion - 1) / 6) * 100;
                answerBonus = (if answeredCount > 0 then (real answeredCount / 6) * 5 else 0);
                newProgress = min (questionProgress + answerBonus) 100
            in state\<lparr>currentQuestion := nextQuestion,
                     currentState := QUESTION nextQuestion,
                     progress := newProgress\<rparr>))"
| "quizReducer now state PREVIOUS_QUESTION =
     (let prevQuestion = max 1 (currentQuestion state - 1);
          prevAnsweredCount = length (Object_keys (answers state));
          prevQuestionProgress = (real_of_int (prevQuestion - 1) / 6) * 100;
          prevAnswerBonus =
            (if prevAnsweredCount > 0 then (real prevAnsweredCount / 6) * 5 else 0);
          prevProgress = min (prevQuestionProgress + prevAnswerBonus) 100
      in state\<lparr>currentQuestion := prevQuestion,
               currentState := (if prevQuestion = 1 then QUESTION 1 else QUESTION prevQuestion),
               progress := prevProgress\<rparr>)"
| "quizReducer now state (GENERATE_RESULT r) =
     state\<lparr>result := Some r, completionTime := Some now\<rparr>"
| "quizReducer now state RESET_QUIZ = initialState"
| "quizReducer now state (SKIP_QUESTION questionId) =
     (let skipAnswers = set_slot questionId (Str skipped) (answers state);
          skipProgress = (real (length (Object_keys skipAnswers)) / 6) * 100;
          skipNextQuestion = currentQuestion state + 1
      in if skipNextQuestion > 6 then
           state\<lparr>answers := skipAnswers,
                   progress := skipProgress,
                   currentState := RESULT,
                   completionTime := Some now\<rparr>
         else
           state\<lparr>answers := skipAnswers,
                   progress := skipProgress,
                   currentQuestion := skipNextQuestion,
                   currentState := QUESTION skipNextQuestion\<rparr>)"

text \<open>
  The actions of the provider. Each runs in one event handler, so the \<open>state\<close> it reads
  is the state its dispatches are applied to. \<open>nextQuestion\<close> dispatches twice at question
  6, with two readings of the clock.
\<close>

definition startQuiz :: "int \<Rightarrow> answer option \<Rightarrow> quiz_state \<Rightarrow> quiz_state" where
  "startQuiz now firstAnswer state = quizReducer now state (START_QUIZ firstAnswer)"

definition answerQuestion :: "int \<Rightarrow> nat \<Rightarrow> answer \<Rightarrow> quiz_state \<Rightarrow> quiz_state" where
  "answerQuestion now questionId answer state =
     quizReducer now state (ANSWER_QUESTION questionId answer)"

definition nextQuestion :: "draws \<Rightarrow> int \<Rightarrow> int \<Rightarrow> quiz_state \<Rightarrow> quiz_state" where
  "nextQuestion rnd now1 now2 state =
     (let nextQ = currentQuestion state + 1;
          generated =
            (if nextQ > 6 then
               quizReducer now1 state
                 (GENERATE_RESULT (generateBlendResult_ctx (answers state) rnd))
             else state)
      in quizReducer now2 generated NEXT_QUESTION)"

definition previousQuestion :: "int \<Rightarrow> quiz_state \<Rightarrow> quiz_state" where
  "previousQuestion now state = quizReducer now state PREVIOUS_QUESTION"

definition skipQuestion :: "int \<Rightarrow> nat \<Rightarrow> quiz_state \<Rightarrow> quiz_state" where
  "skipQuestion now questionId state = quizReducer now state (SKIP_QUESTION questionId)"

definition resetQuiz :: "int \<Rightarrow> quiz_state \<Rightarrow> quiz_state" where
  "resetQuiz now state = quizReducer now state RESET_QUIZ"

text \<open>
  What the interface can do to the machine: one of the six actions, with the values it
  reads from the clock and from \<open>Math.random()\<close>.
\<close>

datatype ui_action =
    Start int "answer option"
  | Answer int nat answer
  | Next draws int int
  | Previous int
  | Skip int nat
  | Reset int

fun perform :: "quiz_state \<Rightarrow> ui_action \<Rightarrow> quiz_state" where
  "perform s (Start now firstAnswer) = startQuiz now firstAnswer s"
| "perform s (Answer now questionId v) = answerQuestion now questionId v s"
| "perform s (Next rnd now1 now2) = nextQuestion rnd now1 now2 s"
| "perform s (Previous now) = previousQuestion now s"
| "perform s (Skip now questionId) = skipQuestion now questionId s"
| "perform s (Reset now) = resetQuiz now s"

text \<open>The state reached from the initial idle state by a sequence of actions.\<close>

definition run :: "ui_action list \<Rightarrow> quiz_state" where
  "run acts = foldl perform initialState acts"


section \<open>Predicates and inputs of the verified properties\<close>

text \<open>
  The shape every reachable state has: the question number stays between 1 and 6, a
  question state carries its own number, and the keys of the answers are strictly
  ascending (so each question id occurs once).
\<close>

definition well_formed :: "quiz_state \<Rightarrow> bool" where
  "well_formed s \<longleftrightarrow>
     1 \<le> currentQuestion s \<and> currentQuestion s \<le> 6 \<and>
     (case currentState s of QUESTION n \<Rightarrow> currentQuestion s = n | _ \<Rightarrow> True) \<and>
     sorted_wrt (<) (Object_keys (answers s))"






text \<open>Five presses of \<open>next\<close> after \<open>start\<close> reach question 6; a sixth completes the quiz.\<close>

definition press_next :: ui_action where
  "press_next = Next (0, 0, 0) 1 2"

definition to_question_6 :: "ui_action list" where
  "to_question_6 = [Start 0 None, press_next, press_next, press_next, press_next, press_next]"

text \<open>The answer set of the documented scenario, and the one with every question skipped.\<close>

definition scenario :: answer_set where
  "scenario =
     [(1, Str (ascii ''rich-chocolatey'')), (2, Str (ascii ''dark'')),
      (3, Arr [ascii ''chocolate'', ascii ''spicy'']), (4, Num 5),
      (5, Str (ascii ''espresso'')), (6, Str (ascii ''full''))]"

definition all_skipped :: answer_set where
  "all_skipped =
     [(1, Str skipped), (2, Str skipped), (3, Str skipped),
      (4, Str skipped), (5, Str skipped), (6, Str skipped)]"


section \<open>Answers objects\<close>

lemma keys_set_slot: "set (Object_keys (set_slot k v a)) = insert k (set (Object_keys a))"
proof (induction a)
  case Nil
  show ?case by (simp add: Object_keys_def)
next
  case (Cons p a)
  have "set (map fst (set_slot k v a)) = insert k (set (map fst a))"
    using Cons by (simp add: Object_keys_def)
  then show ?case
    by (cases p) (simp add: Object_keys_def insert_commute)
qed

lemma sorted_set_slot:
  "sorted_wrt (<) (Object_keys a) \<Longrightarrow> sorted_wrt (<) (Object_keys (set_slot k v a))"
proof (induction a)
  case Nil
  then show ?case by (simp add: Object_keys_def)
next
  case (Cons p a)
  obtain k' v' where p: "p = (k', v')" by (cases p)
  have rest: "sorted_wrt (<) (Object_keys (set_slot k v a))"
    using Cons by (simp add: Object_keys_def)
  have keys: "set (map fst (set_slot k v a)) = insert k (set (map fst a))"
    using keys_set_slot [of k v a] by (simp add: Object_keys_def)
  show ?case
    using Cons.prems rest keys by (auto simp: p Object_keys_def)
qed

lemma slot_set_slot: "slot (set_slot k v a) j = (if j = k then Some v else slot a j)"
  by (induction a) (auto simp: slot_def)

lemma length_set_slot_pos: "0 < length (Object_keys (set_slot k v a))"
  by (cases a) (auto simp: Object_keys_def split: if_splits)

lemma length_keys_card:
  "sorted_wrt (<) (Object_keys a) \<Longrightarrow> length (Object_keys a) = card (set (Object_keys a))"
  by (simp add: distinct_card strict_sorted_iff)


section \<open>Reachable states\<close>

lemma run_Nil: "run [] = initialState"
  by (simp add: run_def)

lemma run_snoc: "run (acts @ [a]) = perform (run acts) a"
  by (simp add: run_def)

lemma well_formed_initial: "well_formed initialState"
  by (simp add: well_formed_def initialState_def Object_keys_def)

lemma well_formed_perform: "well_formed s \<Longrightarrow> well_formed (perform s a)"
proof (cases a)
  case (Start now fa)
  assume "well_formed s"
  then show ?thesis
    by (simp add: Start startQuiz_def well_formed_def Object_keys_def given_def
          split: option.splits)
next
  case (Answer now q v)
  assume "well_formed s"
  then show ?thesis
    by (simp add: Answer answerQuestion_def well_formed_def sorted_set_slot Let_def
          split: QUIZ_STATES.splits)
next
  case (Next rnd t1 t2)
  assume "well_formed s"
  then show ?thesis
    by (auto simp: Next nextQuestion_def well_formed_def Let_def split: QUIZ_STATES.splits)
next
  case (Previous now)
  assume "well_formed s"
  then show ?thesis
    by (auto simp: Previous previousQuestion_def well_formed_def Let_def
          split: QUIZ_STATES.splits)
next
  case (Skip now q)
  assume "well_formed s"
  then show ?thesis
    by (auto simp: Skip skipQuestion_def well_formed_def sorted_set_slot Let_def
          split: QUIZ_STATES.splits)
next
  case (Reset now)
  then show ?thesis
    using well_formed_initial by (simp add: resetQuiz_def)
qed

lemma well_formed_run: "well_formed (run acts)"
  by (induction acts rule: rev_induct)
    (simp_all add: run_Nil run_snoc well_formed_initial well_formed_perform)

lemma question_number: "currentState (run acts) = QUESTION n \<Longrightarrow> currentQuestion (run acts) = n"
  using well_formed_run [of acts] by (simp add: well_formed_def)

lemma state_to_question_6:
  "currentState (run to_question_6) = QUESTION 6 \<and> currentQuestion (run to_question_6) = 6
   \<and> answers (run to_question_6) = [] \<and> result (run to_question_6) = None"
  by (simp add: run_def to_question_6_def press_next_def initialState_def startQuiz_def
        given_def nextQuestion_def Let_def Object_keys_def)

lemma state_started:
  "currentState (run [Start 0 None]) = QUESTION 1 \<and> currentQuestion (run [Start 0 None]) = 1
   \<and> answers (run [Start 0 None]) = [] \<and> result (run [Start 0 None]) = None"
  by (simp add: run_def initialState_def startQuiz_def given_def)





lemma progress_differs:
  fixes c :: nat and q :: int
  assumes "1 \<le> q" "q < 6"
  shows "(real c / 6) * 100 \<noteq> min ((real_of_int q / 6) * 100 + (real c / 6) * 5) 100"
proof
  assume eq: "(real c / 6) * 100 = min ((real_of_int q / 6) * 100 + (real c / 6) * 5) 100"
  show False
  proof (cases "(real_of_int q / 6) * 100 + (real c / 6) * 5 \<le> 100")
    case True
    with eq have "real c * 95 = real_of_int q * 100" by (simp add: min_def field_simps)
    then have "real_of_int (int c * 19) = real_of_int (q * 20)" by simp
    then have "int c * 19 = q * 20" by (simp only: of_int_eq_iff)
    with assms show False by presburger
  next
    case False
    with eq have c: "real c = 6" by (simp add: min_def)
    with False have "real_of_int q * 100 > 570" by simp
    then have "real_of_int (q * 100) > real_of_int 570" by simp
    then have "q * 100 > 570" by (simp only: of_int_less_iff)
    with assms show False by simp
  qed
qed


section \<open>Evaluating the derivation\<close>

lemma floor_bitterness: "\<lfloor>real_of_int k / 1.25\<rfloor> = (k * 4) div 5"
proof -
  have "real_of_int k / 1.25 = real_of_int (k * 4) / real_of_int 5" by simp
  then show ?thesis by (simp only: floor_divide_of_int_eq)
qed

lemma finishIndex_Num: "finishIndex (Num n) = Some (min (((n - 1) * 4) div 5) 3)"
  unfolding finishIndex_def floor_bitterness by (simp add: finishNotes_def)

lemma length_BLEND_NAMES: "length BLEND_NAMES = 22"
  by (simp add: BLEND_NAMES_def)

lemma generateBlendName_nth:
  "generateBlendName a = Some (BLEND_NAMES ! (name_seed a mod 22))"
  by (simp add: generateBlendName_def js_index_def length_BLEND_NAMES)

lemma notes_without_bitterness:
  "tastingNotes (generateBlendResult []) = ascii ''Cocoa'' @ bullet_sep @ ascii ''Clean finish''"
  by (simp add: generateBlendResult_def slot_def Let_def generateTastingNotes_def
        flavor_note_def FLAVOR_PROFILES_def mk_profile_def js_index_def finishIndex_Num
        finishNotes_def join_undef_def skipped_def bullet_sep_def ascii_def)


section \<open>The stored result and the result state\<close>





section \<open>Skip against answer followed by next\<close>

text \<open>
  Claim C2, as amended. In every state and for every question id, \<open>skip\<close> leaves the same
  current state, question number, answers, start time and completion time as answering
  \<open>'skipped'\<close> and then pressing \<open>next\<close>, and below question 6 the same stored result. The
  progress is not the same: after \<open>skip\<close> it is the share of answered questions,
  \<open>(count / 6) * 100\<close>, and at questions 1 to 5 this differs from the progress that \<open>next\<close>
  computes from the position, \<open>min ((N / 6) * 100 + (count / 6) * 5) 100\<close>.
\<close>

theorem skip_versus_answer_next:
  "currentState (skipQuestion now q s)
     = currentState (nextQuestion rnd now1 now (answerQuestion now0 q (Str skipped) s))
   \<and> currentQuestion (skipQuestion now q s)
     = currentQuestion (nextQuestion rnd now1 now (answerQuestion now0 q (Str skipped) s))
   \<and> answers (skipQuestion now q s)
     = answers (nextQuestion rnd now1 now (answerQuestion now0 q (Str skipped) s))
   \<and> startTime (skipQuestion now q s)
     = startTime (nextQuestion rnd now1 now (answerQuestion now0 q (Str skipped) s))
   \<and> completionTime (skipQuestion now q s)
     = completionTime (nextQuestion rnd now1 now (answerQuestion now0 q (Str skipped) s))
   \<and> (currentQuestion s < 6 \<longrightarrow>
        result (skipQuestion now q s)
          = result (nextQuestion rnd now1 now (answerQuestion now0 q (Str skipped) s)))
   \<and> progress (skipQuestion now q s)
     = (real (length (Object_keys (answers (skipQuestion now q s)))) / 6) * 100
   \<and> (1 \<le> currentQuestion s \<and> currentQuestion s < 6 \<longrightarrow>
        progress (nextQuestion rnd now1 now (answerQuestion now0 q (Str skipped) s))
          = min ((real_of_int (currentQuestion s) / 6) * 100
                  + (real (length (Object_keys (answers (skipQuestion now q s)))) / 6) * 5) 100
        \<and> progress (skipQuestion now q s)
          \<noteq> progress (nextQuestion rnd now1 now (answerQuestion now0 q (Str skipped) s)))"
proof -
  have pos: "0 < length (Object_keys (set_slot q (Str skipped) (answers s)))"
    by (rule length_set_slot_pos)
  have diff: "1 \<le> currentQuestion s \<Longrightarrow> currentQuestion s < 6 \<Longrightarrow>
      (real (length (Object_keys (set_slot q (Str skipped) (answers s)))) / 6) * 100
      \<noteq> min ((real_of_int (currentQuestion s) / 6) * 100
            + (real (length (Object_keys (set_slot q (Str skipped) (answers s)))) / 6) * 5) 100"
    by (rule progress_differs)
  show ?thesis
    using pos diff
    by (simp add: skipQuestion_def nextQuestion_def answerQuestion_def Let_def)
qed

text \<open>The theorem at question 1 of a quiz just started.\<close>

theorem skip_versus_answer_next_witness:
  "1 \<le> currentQuestion (run [Start 0 None]) \<and> currentQuestion (run [Start 0 None]) < 6
   \<and> result (skipQuestion 0 1 (run [Start 0 None]))
       = result (nextQuestion (0, 0, 0) 0 0 (answerQuestion 0 1 (Str skipped) (run [Start 0 None])))
   \<and> progress (skipQuestion 0 1 (run [Start 0 None]))
       \<noteq> progress (nextQuestion (0, 0, 0) 0 0
                     (answerQuestion 0 1 (Str skipped) (run [Start 0 None])))"
proof -
  have lo: "1 \<le> currentQuestion (run [Start 0 None])"
    and hi: "currentQuestion (run [Start 0 None]) < 6"
    by (simp_all add: state_started)
  note at_start = skip_versus_answer_next [of 0 1 "run [Start 0 None]" "(0, 0, 0)" 0 0]
  from at_start hi
  have r: "result (skipQuestion 0 1 (run [Start 0 None]))
       = result (nextQuestion (0, 0, 0) 0 0 (answerQuestion 0 1 (Str skipped) (run [Start 0 None])))"
    by blast
  from at_start lo hi
  have p: "progress (skipQuestion 0 1 (run [Start 0 None]))
       \<noteq> progress (nextQuestion (0, 0, 0) 0 0
                     (answerQuestion 0 1 (Str skipped) (run [Start 0 None])))"
    by blast
  from lo hi r p show ?thesis by blast
qed

text \<open>
  The two paths do not give the same state: at question 1 with no answer, \<open>skip\<close> leaves
  progress \<open>50 / 3\<close> and answer-then-next leaves \<open>35 / 2\<close>; at question 6, \<open>skip\<close> stores no
  result and answer-then-next stores one.
\<close>

theorem skip_equivalence_counterexample:
  "progress (skipQuestion 0 1 (run [Start 0 None])) = 50 / 3
   \<and> progress (nextQuestion (0, 0, 0) 0 0 (answerQuestion 0 1 (Str skipped) (run [Start 0 None])))
       = 35 / 2
   \<and> skipQuestion 0 1 (run [Start 0 None])
       \<noteq> nextQuestion (0, 0, 0) 0 0 (answerQuestion 0 1 (Str skipped) (run [Start 0 None]))
   \<and> result (skipQuestion 0 6 (run to_question_6)) = None
   \<and> result (nextQuestion (0, 0, 0) 0 0 (answerQuestion 0 6 (Str skipped) (run to_question_6)))
       \<noteq> None"
proof -
  have a: "progress (skipQuestion 0 1 (run [Start 0 None])) = 50 / 3"
    by (simp add: skipQuestion_def Let_def Object_keys_def state_started)
  have b: "progress (nextQuestion (0, 0, 0) 0 0
              (answerQuestion 0 1 (Str skipped) (run [Start 0 None]))) = 35 / 2"
    by (simp add: nextQuestion_def answerQuestion_def Let_def Object_keys_def state_started)
  have "progress (skipQuestion 0 1 (run [Start 0 None]))
      \<noteq> progress (nextQuestion (0, 0, 0) 0 0
              (answerQuestion 0 1 (Str skipped) (run [Start 0 None])))"
    unfolding a b by simp
  then have c: "skipQuestion 0 1 (run [Start 0 None])
       \<noteq> nextQuestion (0, 0, 0) 0 0 (answerQuestion 0 1 (Str skipped) (run [Start 0 None]))"
    by metis
  have d: "result (skipQuestion 0 6 (run to_question_6)) = None"
    by (simp add: skipQuestion_def Let_def state_to_question_6)
  have e: "result (nextQuestion (0, 0, 0) 0 0
              (answerQuestion 0 6 (Str skipped) (run to_question_6))) \<noteq> None"
    by (simp add: nextQuestion_def answerQuestion_def Let_def state_to_question_6)
  from a b c d e show ?thesis by simp
qed


section \<open>Defaults and the skipped sentinel\<close>

text \<open>
  Claim C3. The derivation is claimed to replace a slot that is absent or \<open>'skipped'\<close> by
  its default before it computes the result. It replaces an absent slot only: \<open>'skipped'\<close>
  is a non-empty string, which \<open>||\<close> keeps. With bitterness \<open>'skipped'\<close> the notes end in the
  separator, with no finish, where the default bitterness 3 gives \<open>Clean finish\<close>; with
  flavors \<open>'skipped'\<close> the origins are the first two of the whole table, where the default
  flavor chocolate selects Colombian Huila and Guatemalan Antigua.
\<close>

theorem skipped_slot_keeps_sentinel:
  "tastingNotes (generateBlendResult [(4, Str skipped)]) = ascii ''Cocoa'' @ bullet_sep
   \<and> tastingNotes (generateBlendResult [])
       = ascii ''Cocoa'' @ bullet_sep @ ascii ''Clean finish''
   \<and> origins (generateBlendResult [(3, Str skipped)])
       = ascii ''Ethiopian Yirgacheffe 60%'' @ bullet_sep @ ascii ''Colombian Huila 40%''
   \<and> origins (generateBlendResult [])
       = ascii ''Colombian Huila 60%'' @ bullet_sep @ ascii ''Guatemalan Antigua 40%''"
proof -
  have a: "tastingNotes (generateBlendResult [(4, Str skipped)]) = ascii ''Cocoa'' @ bullet_sep"
    by (simp add: generateBlendResult_def slot_def Let_def generateTastingNotes_def
          flavor_note_def FLAVOR_PROFILES_def mk_profile_def js_index_def finishIndex_def
          StringToNumber_def trim_def is_white_space_def join_undef_def skipped_def
          bullet_sep_def ascii_def)
  have c: "origins (generateBlendResult [(3, Str skipped)])
       = ascii ''Ethiopian Yirgacheffe 60%'' @ bullet_sep @ ascii ''Colombian Huila 40%''"
    by (simp add: generateBlendResult_def slot_def Let_def generateOriginBlend_def
          ORIGINS_def mk_origin_def js_index_def number_to_string_def digits.simps
          skipped_def bullet_sep_def ascii_def)
  have d: "origins (generateBlendResult [])
       = ascii ''Colombian Huila 60%'' @ bullet_sep @ ascii ''Guatemalan Antigua 40%''"
    by (simp add: generateBlendResult_def slot_def Let_def generateOriginBlend_def
          ORIGINS_def mk_origin_def js_index_def number_to_string_def digits.simps
          bullet_sep_def ascii_def)
  from a notes_without_bitterness c d show ?thesis by simp
qed

text \<open>
  Claim C4. With all six slots \<open>'skipped'\<close> the seed of the name is the sum of the
  character codes of the six-fold \<open>skipped\<close>, 4512, and the name is entry \<open>4512 mod 22 = 2\<close>
  of the list, as claimed; the notes are built from the chocolate note of the middle
  index. The finish is not a valid descriptor: the bitterness stays \<open>'skipped'\<close>, its finish
  index is \<open>NaN\<close>, and the notes end in the separator.
\<close>

theorem all_skipped_result:
  "name_seed all_skipped = sum_list (ascii ''skippedskippedskippedskippedskippedskipped'')
   \<and> name_seed all_skipped mod length BLEND_NAMES = 2
   \<and> name (generateBlendResult all_skipped) = Some (ascii ''Meridian'')
   \<and> finishIndex (Str skipped) = None
   \<and> tastingNotes (generateBlendResult all_skipped) = ascii ''Cocoa'' @ bullet_sep
   \<and> tastingNotes (generateBlendResult all_skipped)
       \<notin> set (map (\<lambda>finish. ascii ''Cocoa'' @ bullet_sep @ finish) finishNotes)"
proof -
  have s: "name_seed all_skipped = 4512"
    by (simp add: name_seed_def all_skipped_def Object_values_def skipped_def ascii_def)
  have l: "sum_list (ascii ''skippedskippedskippedskippedskippedskipped'') = 4512"
    by (simp add: ascii_def)
  have n: "name (generateBlendResult all_skipped) = Some (ascii ''Meridian'')"
    by (simp add: generateBlendResult_def Let_def generateBlendName_nth s BLEND_NAMES_def)
  have f: "finishIndex (Str skipped) = None"
    by (simp add: finishIndex_def StringToNumber_def trim_def is_white_space_def
          skipped_def ascii_def)
  have t: "tastingNotes (generateBlendResult all_skipped) = ascii ''Cocoa'' @ bullet_sep"
    by (simp add: generateBlendResult_def all_skipped_def slot_def Let_def
          generateTastingNotes_def flavor_note_def FLAVOR_PROFILES_def mk_profile_def
          js_index_def finishIndex_def StringToNumber_def trim_def is_white_space_def
          join_undef_def skipped_def bullet_sep_def ascii_def)
  have m: "ascii ''Cocoa'' @ bullet_sep
       \<notin> set (map (\<lambda>finish. ascii ''Cocoa'' @ bullet_sep @ finish) finishNotes)"
    by (simp add: finishNotes_def ascii_def)
  from s l n f t m show ?thesis by (simp add: length_BLEND_NAMES)
qed


section \<open>Determinism\<close>

text \<open>
  Claim C5. The derivation that runs when the quiz completes is the one of the quiz
  context, and its output depends on what \<open>Math.random()\<close> returns: on the empty answer
  set, the draws \<open>(0, 0, 0)\<close> and \<open>(1/2, 0, 0)\<close> give different origins, so two calls with
  the same answers need not agree.
\<close>

theorem context_result_depends_on_draws:
  "origins (generateBlendResult_ctx [] (0, 0, 0))
     = ascii ''Ethiopian Yirgacheffe 60%'' @ bullet_sep @ ascii ''Ethiopian Yirgacheffe 40%''
   \<and> origins (generateBlendResult_ctx [] (1 / 2, 0, 0))
     = ascii ''Jamaican Blue Mountain 60%'' @ bullet_sep @ ascii ''Ethiopian Yirgacheffe 40%''
   \<and> generateBlendResult_ctx [] (0, 0, 0) \<noteq> generateBlendResult_ctx [] (1 / 2, 0, 0)"
proof -
  have a: "origins (generateBlendResult_ctx [] (0, 0, 0))
     = ascii ''Ethiopian Yirgacheffe 60%'' @ bullet_sep @ ascii ''Ethiopian Yirgacheffe 40%''"
    by (simp add: generateBlendResult_ctx_def slot_def Let_def random_element_def
          origin_names_def js_index_def template_string_def bullet_sep_def ascii_def)
  have b: "origins (generateBlendResult_ctx [] (1 / 2, 0, 0))
     = ascii ''Jamaican Blue Mountain 60%'' @ bullet_sep @ ascii ''Ethiopian Yirgacheffe 40%''"
    by (simp add: generateBlendResult_ctx_def slot_def Let_def random_element_def
          origin_names_def js_index_def template_string_def bullet_sep_def ascii_def)
  have "origins (generateBlendResult_ctx [] (0, 0, 0))
      \<noteq> origins (generateBlendResult_ctx [] (1 / 2, 0, 0))"
    unfolding a b by (simp add: ascii_def)
  then have "generateBlendResult_ctx [] (0, 0, 0) \<noteq> generateBlendResult_ctx [] (1 / 2, 0, 0)"
    by metis
  with a b show ?thesis by simp
qed


section \<open>The transitions\<close>

text \<open>
  Claim C6. In every reachable state whose current state is question 6, \<open>next\<close> enters
  the result state, stores the result that the derivation of the context returns for the
  answers of that state (one call, with the draws of that call), sets progress to 100 and
  records the second clock reading as completion time; the answers are unchanged.
\<close>

theorem next_from_question_6:
  assumes "currentState (run acts) = QUESTION 6"
  shows "currentState (nextQuestion rnd now1 now2 (run acts)) = RESULT
       \<and> result (nextQuestion rnd now1 now2 (run acts))
           = Some (generateBlendResult_ctx (answers (run acts)) rnd)
       \<and> progress (nextQuestion rnd now1 now2 (run acts)) = 100
       \<and> completionTime (nextQuestion rnd now1 now2 (run acts)) = Some now2
       \<and> answers (nextQuestion rnd now1 now2 (run acts)) = answers (run acts)"
proof -
  have "currentQuestion (run acts) = 6"
    using assms by (rule question_number)
  then show ?thesis
    by (simp add: nextQuestion_def Let_def)
qed

text \<open>The theorem after \<open>start\<close> and five presses of \<open>next\<close>, with no question answered.\<close>

theorem next_from_question_6_witness:
  "currentState (run to_question_6) = QUESTION 6
   \<and> currentState (nextQuestion (0, 0, 0) 7 8 (run to_question_6)) = RESULT
   \<and> result (nextQuestion (0, 0, 0) 7 8 (run to_question_6))
       = Some (generateBlendResult_ctx [] (0, 0, 0))
   \<and> progress (nextQuestion (0, 0, 0) 7 8 (run to_question_6)) = 100
   \<and> completionTime (nextQuestion (0, 0, 0) 7 8 (run to_question_6)) = Some 8"
  using next_from_question_6 [of to_question_6 "(0, 0, 0)" 7 8]
  by (simp add: state_to_question_6)

text \<open>
  Claim C7. In every reachable state, \<open>answer\<close> keeps the current state and the question
  number, stores the value under the question id and leaves every other slot as it was,
  keeps the result and both times, and sets progress to the number of distinct answered
  question ids, divided by 6, times 100.
\<close>

theorem answer_upserts:
  "currentState (answerQuestion now q v (run acts)) = currentState (run acts)
   \<and> currentQuestion (answerQuestion now q v (run acts)) = currentQuestion (run acts)
   \<and> slot (answers (answerQuestion now q v (run acts))) q = Some v
   \<and> (\<forall>k. k \<noteq> q \<longrightarrow>
         slot (answers (answerQuestion now q v (run acts))) k = slot (answers (run acts)) k)
   \<and> result (answerQuestion now q v (run acts)) = result (run acts)
   \<and> startTime (answerQuestion now q v (run acts)) = startTime (run acts)
   \<and> completionTime (answerQuestion now q v (run acts)) = completionTime (run acts)
   \<and> progress (answerQuestion now q v (run acts))
       = (real (card (set (Object_keys (answers (answerQuestion now q v (run acts)))))) / 6)
           * 100"
proof -
  have "sorted_wrt (<) (Object_keys (answers (run acts)))"
    using well_formed_run [of acts] by (simp add: well_formed_def)
  then have "sorted_wrt (<) (Object_keys (set_slot q v (answers (run acts))))"
    by (rule sorted_set_slot)
  then have "length (Object_keys (set_slot q v (answers (run acts))))
      = card (set (Object_keys (set_slot q v (answers (run acts)))))"
    by (rule length_keys_card)
  then show ?thesis
    by (simp add: answerQuestion_def Let_def slot_set_slot)
qed

text \<open>
  The theorem at a quiz started with a first answer, where question 1 is answered again:
  slot 2 stays absent and one question id is answered.
\<close>

theorem answer_upserts_witness:
  "(2 :: nat) \<noteq> 1
   \<and> slot (answers (answerQuestion 0 1 (Str (ascii ''smooth-nutty''))
                      (run [Start 0 (Some (Str (ascii ''bright-fruity'')))]))) 2 = None
   \<and> progress (answerQuestion 0 1 (Str (ascii ''smooth-nutty''))
                 (run [Start 0 (Some (Str (ascii ''bright-fruity'')))])) = 50 / 3"
proof -
  have st: "answers (run [Start 0 (Some (Str (ascii ''bright-fruity'')))])
      = [(1, Str (ascii ''bright-fruity''))]"
    by (simp add: run_def initialState_def startQuiz_def given_def ascii_def)
  have keys: "Object_keys (answers (answerQuestion 0 1 (Str (ascii ''smooth-nutty''))
                 (run [Start 0 (Some (Str (ascii ''bright-fruity'')))]))) = [1]"
    by (simp add: answerQuestion_def Let_def st Object_keys_def)
  note again = answer_upserts [of 0 1 "Str (ascii ''smooth-nutty'')"
      "[Start 0 (Some (Str (ascii ''bright-fruity'')))]"]
  have ne: "(2 :: nat) \<noteq> 1" by simp
  from again
  have "\<forall>k. k \<noteq> 1 \<longrightarrow>
      slot (answers (answerQuestion 0 1 (Str (ascii ''smooth-nutty''))
                      (run [Start 0 (Some (Str (ascii ''bright-fruity'')))]))) k
      = slot (answers (run [Start 0 (Some (Str (ascii ''bright-fruity'')))])) k"
    by blast
  with ne
  have "slot (answers (answerQuestion 0 1 (Str (ascii ''smooth-nutty''))
                      (run [Start 0 (Some (Str (ascii ''bright-fruity'')))]))) 2
      = slot (answers (run [Start 0 (Some (Str (ascii ''bright-fruity'')))])) 2"
    by blast
  then have s2: "slot (answers (answerQuestion 0 1 (Str (ascii ''smooth-nutty''))
                      (run [Start 0 (Some (Str (ascii ''bright-fruity'')))]))) 2 = None"
    by (simp add: st slot_def)
  from again
  have "progress (answerQuestion 0 1 (Str (ascii ''smooth-nutty''))
                 (run [Start 0 (Some (Str (ascii ''bright-fruity'')))]))
      = (real (card (set (Object_keys (answers (answerQuestion 0 1 (Str (ascii ''smooth-nutty''))
                 (run [Start 0 (Some (Str (ascii ''bright-fruity'')))])))))) / 6) * 100"
    by blast
  then have p: "progress (answerQuestion 0 1 (Str (ascii ''smooth-nutty''))
                 (run [Start 0 (Some (Str (ascii ''bright-fruity'')))])) = 50 / 3"
    unfolding keys by simp
  from ne s2 p show ?thesis by blast
qed

text \<open>
  Claim C8. In every reachable state whose current state is question \<open>N\<close> with
  \<open>1 \<le> N < 6\<close>, \<open>next\<close> moves to question \<open>N + 1\<close> and sets progress to
  \<open>min ((N / 6) * 100 + (countAnswered / 6) * 5) 100\<close>, where \<open>countAnswered\<close> is the number
  of keys of the answers.
\<close>

theorem next_below_6_progress:
  assumes "currentState (run acts) = QUESTION N" and "1 \<le> N" and "N < 6"
  shows "currentState (nextQuestion rnd now1 now2 (run acts)) = QUESTION (N + 1)
       \<and> currentQuestion (nextQuestion rnd now1 now2 (run acts)) = N + 1
       \<and> progress (nextQuestion rnd now1 now2 (run acts))
           = min ((real_of_int N / 6) * 100
                   + (real (length (Object_keys (answers (run acts)))) / 6) * 5) 100"
proof -
  have "currentQuestion (run acts) = N"
    using assms(1) by (rule question_number)
  then show ?thesis
    using assms(3) by (simp add: nextQuestion_def Let_def)
qed

text \<open>The theorem at question 1 of a quiz started with a first answer: progress \<open>35 / 2\<close>.\<close>

theorem next_below_6_progress_witness:
  "currentState (run [Start 0 (Some (Str (ascii ''bright-fruity'')))]) = QUESTION 1
   \<and> (1 :: int) \<le> 1 \<and> (1 :: int) < 6
   \<and> currentState (nextQuestion (0, 0, 0) 1 2
                     (run [Start 0 (Some (Str (ascii ''bright-fruity'')))])) = QUESTION 2
   \<and> progress (nextQuestion (0, 0, 0) 1 2
                 (run [Start 0 (Some (Str (ascii ''bright-fruity'')))])) = 35 / 2"
proof -
  have st: "currentState (run [Start 0 (Some (Str (ascii ''bright-fruity'')))]) = QUESTION 1"
    by (simp add: run_def initialState_def startQuiz_def)
  have an: "answers (run [Start 0 (Some (Str (ascii ''bright-fruity'')))])
      = [(1, Str (ascii ''bright-fruity''))]"
    by (simp add: run_def initialState_def startQuiz_def given_def ascii_def)
  show ?thesis
    using next_below_6_progress [OF st, of "(0, 0, 0)" 1 2]
    by (simp add: st an Object_keys_def)
qed


section \<open>The documented scenario and the blend name\<close>

text \<open>
  Claim C9. For the answers rich-chocolatey, dark, chocolate and spicy, bitterness 5,
  espresso and full, the derivation of \<open>quizLogic.js\<close> returns roast level \<open>Dark Roast\<close>, grind
  \<open>Fine\<close>, caffeine level \<open>Full Caffeine\<close>, the notes \<open>Mocha\<close> and \<open>Cardamom\<close> (the dark-roast
  notes of the two flavors) joined with the finish \<open>Lingering finish\<close>, and the origins
  Colombian Huila 55% and Guatemalan Antigua 45%.
\<close>

theorem scenario_result:
  "roastLevel (generateBlendResult scenario) = ascii ''Dark Roast''
   \<and> grindSuggestion (generateBlendResult scenario) = ascii ''Fine''
   \<and> caffeineLevel (generateBlendResult scenario) = ascii ''Full Caffeine''
   \<and> flavor_note (Str (ascii ''dark'')) (Str (ascii ''chocolate'')) = Some (ascii ''Mocha'')
   \<and> flavor_note (Str (ascii ''dark'')) (Str (ascii ''spicy'')) = Some (ascii ''Cardamom'')
   \<and> js_index finishNotes (finishIndex (Num 5)) = Some (ascii ''Lingering finish'')
   \<and> tastingNotes (generateBlendResult scenario)
       = ascii ''Mocha'' @ bullet_sep @ ascii ''Cardamom'' @ bullet_sep @ ascii ''Lingering finish''
   \<and> origins (generateBlendResult scenario)
       = ascii ''Colombian Huila 55%'' @ bullet_sep @ ascii ''Guatemalan Antigua 45%''"
proof -
  have r: "roastLevel (generateBlendResult scenario) = ascii ''Dark Roast''"
    by (simp add: generateBlendResult_def scenario_def slot_def Let_def mapRoastLevel_def
          lookup_or_def ascii_def)
  have g: "grindSuggestion (generateBlendResult scenario) = ascii ''Fine''"
    by (simp add: generateBlendResult_def scenario_def slot_def Let_def mapGrindSuggestion_def
          lookup_or_def ascii_def)
  have c: "caffeineLevel (generateBlendResult scenario) = ascii ''Full Caffeine''"
    by (simp add: generateBlendResult_def scenario_def slot_def Let_def mapCaffeineLevel_def
          lookup_or_def ascii_def)
  have f1: "flavor_note (Str (ascii ''dark'')) (Str (ascii ''chocolate'')) = Some (ascii ''Mocha'')"
    by (simp add: flavor_note_def FLAVOR_PROFILES_def mk_profile_def js_index_def ascii_def)
  have f2: "flavor_note (Str (ascii ''dark'')) (Str (ascii ''spicy'')) = Some (ascii ''Cardamom'')"
    by (simp add: flavor_note_def FLAVOR_PROFILES_def mk_profile_def js_index_def ascii_def)
  have f3: "js_index finishNotes (finishIndex (Num 5)) = Some (ascii ''Lingering finish'')"
    by (simp add: finishIndex_Num js_index_def finishNotes_def)
  have n: "tastingNotes (generateBlendResult scenario)
       = ascii ''Mocha'' @ bullet_sep @ ascii ''Cardamom'' @ bullet_sep @ ascii ''Lingering finish''"
    by (simp add: generateBlendResult_def scenario_def slot_def Let_def generateTastingNotes_def
          flavor_note_def FLAVOR_PROFILES_def mk_profile_def js_index_def finishIndex_Num
          finishNotes_def join_undef_def skipped_def bullet_sep_def ascii_def)
  have o: "origins (generateBlendResult scenario)
       = ascii ''Colombian Huila 55%'' @ bullet_sep @ ascii ''Guatemalan Antigua 45%''"
    by (simp add: generateBlendResult_def scenario_def slot_def Let_def generateOriginBlend_def
          ORIGINS_def mk_origin_def js_index_def number_to_string_def digits.simps
          bullet_sep_def ascii_def)
  from r g c f1 f2 f3 n o show ?thesis by simp
qed

text \<open>
  Claim C10. For every answers object \<open>generateBlendName\<close> returns an entry of the list of
  22 blend names: the seed is a natural number, and the index is the seed modulo 22. When
  no answer value is present (none at all, or only falsy ones) the seed is 0 and the name
  is \<open>Nocturne 03\<close>.
\<close>

theorem blend_name_in_range:
  "(\<exists>i < 22. generateBlendName a = Some (BLEND_NAMES ! i))
   \<and> length BLEND_NAMES = 22
   \<and> (\<exists>n \<in> set BLEND_NAMES. generateBlendName a = Some n)
   \<and> (filter truthy (Object_values a) = [] \<longrightarrow>
        name_seed a = 0 \<and> generateBlendName a = Some (ascii ''Nocturne 03''))"
proof -
  have lt: "name_seed a mod 22 < 22" by simp
  have i: "\<exists>i < 22. generateBlendName a = Some (BLEND_NAMES ! i)"
    using lt generateBlendName_nth by blast
  have "BLEND_NAMES ! (name_seed a mod 22) \<in> set BLEND_NAMES"
    using lt by (simp add: length_BLEND_NAMES)
  then have m: "\<exists>n \<in> set BLEND_NAMES. generateBlendName a = Some n"
    by (simp add: generateBlendName_nth)
  have e: "filter truthy (Object_values a) = [] \<Longrightarrow>
        name_seed a = 0 \<and> generateBlendName a = Some (ascii ''Nocturne 03'')"
    by (simp add: generateBlendName_nth name_seed_def BLEND_NAMES_def)
  from i m e show ?thesis by (simp add: length_BLEND_NAMES)
qed

text \<open>The theorem at the empty answers object.\<close>

theorem blend_name_in_range_witness:
  "filter truthy (Object_values []) = []
   \<and> name_seed [] = 0 \<and> generateBlendName [] = Some (ascii ''Nocturne 03'')"
  using blend_name_in_range [of "[]"] by (simp add: Object_values_def)

end
